theory Spec2Isabelle
  imports Main
begin

section \<open>Library functions the validator calls\<close>

text \<open>
  Go strings are byte sequences; they are modelled as \<open>string\<close> (a list of 8-bit
  characters), so \<open>==\<close> on Go strings is HOL equality.

  \<open>strings.Contains(s, substr)\<close> reports whether \<open>substr\<close> occurs in \<open>s\<close> as a
  contiguous run of bytes; the empty string occurs in every string.
\<close>

fun has_prefix :: "string \<Rightarrow> string \<Rightarrow> bool" where
  "has_prefix s [] = True"
| "has_prefix [] (p # ps) = False"
| "has_prefix (c # cs) (p # ps) = (c = p \<and> has_prefix cs ps)"

fun strings_Contains :: "string \<Rightarrow> string \<Rightarrow> bool" where
  "strings_Contains [] substr = has_prefix [] substr"
| "strings_Contains (c # cs) substr =
     (has_prefix (c # cs) substr \<or> strings_Contains cs substr)"

text \<open>
  \<open>fmt.Sprintf\<close> verbs used by the validator: \<open>%d\<close> prints an integer in decimal,
  \<open>%v\<close> prints a slice of integers as the decimal elements separated by one space
  inside square brackets, \<open>%s\<close> inserts a string unchanged (\<open>quoted\<close> is \<open>%s\<close>
  between single quotes), and \<open>%v\<close> on an error inserts its message. Go's \<open>int\<close> is
  modelled as \<open>int\<close>: the validator only compares and prints status codes.
\<close>

definition digit_char :: "nat \<Rightarrow> char" where
  "digit_char d = ''0123456789'' ! (d mod 10)"

fun fmt_nat :: "nat \<Rightarrow> string" where
  "fmt_nat n = (if n < 10 then [digit_char n] else fmt_nat (n div 10) @ [digit_char (n mod 10)])"

definition fmt_d :: "int \<Rightarrow> string" where
  "fmt_d i = (if i < 0 then CHR ''-'' # fmt_nat (nat (- i)) else fmt_nat (nat i))"

fun join_space :: "string list \<Rightarrow> string" where
  "join_space [] = []"
| "join_space [x] = x"
| "join_space (x # y # ys) = x @ '' '' @ join_space (y # ys)"

definition fmt_v_ints :: "int list \<Rightarrow> string" where
  "fmt_v_ints xs = ''['' @ join_space (map fmt_d xs) @ '']''"

definition quoted :: "string \<Rightarrow> string" where
  "quoted s = CHR 0x27 # s @ [CHR 0x27]"

text \<open>
  \<open>regexp.MatchString(pattern, s)\<close> belongs to the Go standard library. It compiles the
  pattern and, when that succeeds, searches \<open>s\<close> for a match. The compiler and the
  matcher are parameters of the model: \<open>Compile\<close> returns the error message (\<open>Inl\<close>) or
  a compiled expression, \<open>reMatch\<close> runs a compiled expression on a text. The pair
  \<open>(matched, err)\<close> is returned as in Go, \<open>err\<close> being \<open>None\<close> for \<open>nil\<close>.
\<close>

definition regexp_MatchString ::
  "(string \<Rightarrow> string + 're) \<Rightarrow> ('re \<Rightarrow> string \<Rightarrow> bool) \<Rightarrow> string \<Rightarrow> string \<Rightarrow> bool \<times> string option" where
  "regexp_MatchString Compile reMatch pattern s =
     (case Compile pattern of
        Inl err \<Rightarrow> (False, Some err)
      | Inr re \<Rightarrow> (reMatch re s, None))"

section \<open>Data model\<close>

text \<open>
  \<open>executor.Response\<close>: the header map is read by key only. The \<open>Duration\<close> field
  is wall-clock time and is left out.
\<close>

record Response =
  StatusCode :: int
  Response_Headers :: "string \<rightharpoonup> string"
  Response_Body :: string

text \<open>\<open>config.BodyExpected\<close>.\<close>

record BodyExpected =
  Contains :: "string list"
  NotContains :: "string list"
  Exact :: string
  Regex :: string

text \<open>
  \<open>config.Expected\<close>. The validator walks the expected header map with \<open>range\<close>, so
  this map is given as the list of its entries in the order the loop visits them (Go
  leaves that order open; every order is a possible list). The body rule is a pointer
  and may be \<open>nil\<close>.
\<close>

record Expected =
  Status :: "int list"
  Expected_Headers :: "(string \<times> string) list"
  Expected_Body :: "BodyExpected option"

text \<open>\<open>validator.ValidationResult\<close>.\<close>

record ValidationResult =
  Passed :: bool
  Errors :: "string list"
  Warnings :: "string list"

section \<open>The response validator (pkg/validator/response.go)\<close>

text \<open>
  Each check receives the result built so far and returns it with the strings it
  appended; the log calls are left out.
\<close>

text \<open>The loop of \<open>validateStatusCode\<close>: \<open>True\<close> when it returns early on a match.\<close>

fun status_loop :: "int \<Rightarrow> int list \<Rightarrow> bool" where
  "status_loop code [] = False"
| "status_loop code (expectedStatus # rest) =
     (if code = expectedStatus then True else status_loop code rest)"

definition validateStatusCode :: "Response \<Rightarrow> Expected \<Rightarrow> ValidationResult \<Rightarrow> ValidationResult" where
  "validateStatusCode response expected result =
     (if length (Status expected) = 0
      then result\<lparr>Warnings := Warnings result @ [''No expected status codes defined'']\<rparr>
      else if status_loop (StatusCode response) (Status expected) then result
      else result\<lparr>Errors := Errors result @
             [''Status code mismatch: expected one of '' @ fmt_v_ints (Status expected)
              @ '', got '' @ fmt_d (StatusCode response)]\<rparr>)"

fun headers_loop :: "Response \<Rightarrow> (string \<times> string) list \<Rightarrow> ValidationResult \<Rightarrow> ValidationResult" where
  "headers_loop response [] result = result"
| "headers_loop response ((expectedKey, expectedValue) # rest) result =
     (case Response_Headers response expectedKey of
        None \<Rightarrow>
          headers_loop response rest
            (result\<lparr>Errors := Errors result @ [''Missing expected header: '' @ expectedKey]\<rparr>)
      | Some actualValue \<Rightarrow>
          if \<not> strings_Contains actualValue expectedValue
          then headers_loop response rest
                 (result\<lparr>Errors := Errors result @
                    [''Header value mismatch for '' @ expectedKey @ '': expected to contain ''
                     @ quoted expectedValue @ '', got '' @ quoted actualValue]\<rparr>)
          else headers_loop response rest result)"

definition validateHeaders :: "Response \<Rightarrow> Expected \<Rightarrow> ValidationResult \<Rightarrow> ValidationResult" where
  "validateHeaders response expected result =
     (if length (Expected_Headers expected) = 0 then result
      else headers_loop response (Expected_Headers expected) result)"

fun contains_loop :: "string \<Rightarrow> string list \<Rightarrow> ValidationResult \<Rightarrow> ValidationResult" where
  "contains_loop body [] result = result"
| "contains_loop body (expectedContains # rest) result =
     (if \<not> strings_Contains body expectedContains
      then contains_loop body rest
             (result\<lparr>Errors := Errors result @
                [''Body should contain '' @ quoted expectedContains @ '' but it was not found'']\<rparr>)
      else contains_loop body rest result)"

fun not_contains_loop :: "string \<Rightarrow> string list \<Rightarrow> ValidationResult \<Rightarrow> ValidationResult" where
  "not_contains_loop body [] result = result"
| "not_contains_loop body (expectedNotContains # rest) result =
     (if strings_Contains body expectedNotContains
      then not_contains_loop body rest
             (result\<lparr>Errors := Errors result @
                [''Body should not contain '' @ quoted expectedNotContains @ '' but it was found'']\<rparr>)
      else not_contains_loop body rest result)"

definition validateBody ::
  "(string \<Rightarrow> string + 're) \<Rightarrow> ('re \<Rightarrow> string \<Rightarrow> bool) \<Rightarrow>
   Response \<Rightarrow> Expected \<Rightarrow> ValidationResult \<Rightarrow> ValidationResult" where
  "validateBody Compile reMatch response expected result =
     (case Expected_Body expected of
        None \<Rightarrow> result
      | Some bodyExpected \<Rightarrow>
          if Exact bodyExpected \<noteq> []
          then (if Response_Body response \<noteq> Exact bodyExpected
                then result\<lparr>Errors := Errors result @
                       [''Body exact match failed: expected '' @ quoted (Exact bodyExpected)
                        @ '', got '' @ quoted (Response_Body response)]\<rparr>
                else result)
          else if Regex bodyExpected \<noteq> []
          then (case regexp_MatchString Compile reMatch (Regex bodyExpected) (Response_Body response) of
                  (matched, Some err) \<Rightarrow>
                    result\<lparr>Errors := Errors result @
                      [''Invalid regex pattern '' @ quoted (Regex bodyExpected) @ '': '' @ err]\<rparr>
                | (matched, None) \<Rightarrow>
                    if \<not> matched
                    then result\<lparr>Errors := Errors result @
                           [''Body regex match failed: pattern '' @ quoted (Regex bodyExpected)
                            @ '' did not match response body'']\<rparr>
                    else result)
          else not_contains_loop (Response_Body response) (NotContains bodyExpected)
                 (contains_loop (Response_Body response) (Contains bodyExpected) result))"

text \<open>
  \<open>Validate\<close>: the three checks run in this order on a fresh result, then \<open>Passed\<close>
  is cleared when an error was recorded. The test name only feeds the log.
\<close>

definition Validate ::
  "(string \<Rightarrow> string + 're) \<Rightarrow> ('re \<Rightarrow> string \<Rightarrow> bool) \<Rightarrow>
   Response \<Rightarrow> Expected \<Rightarrow> string \<Rightarrow> ValidationResult" where
  "Validate Compile reMatch response expected testName =
     (let result = \<lparr>Passed = True, Errors = [], Warnings = []\<rparr>;
          result = validateStatusCode response expected result;
          result = validateHeaders response expected result;
          result = validateBody Compile reMatch response expected result
      in if length (Errors result) > 0 then result\<lparr>Passed := False\<rparr> else result)"

text \<open>
  \<open>ValidateMultiple\<close> panics when the three slices differ in length; otherwise it
  fills a slice of the same length index by index.
\<close>

datatype fault = Panic string

definition ValidateMultiple ::
  "(string \<Rightarrow> string + 're) \<Rightarrow> ('re \<Rightarrow> string \<Rightarrow> bool) \<Rightarrow>
   Response list \<Rightarrow> Expected list \<Rightarrow> string list \<Rightarrow> fault + ValidationResult list" where
  "ValidateMultiple Compile reMatch responses expected testNames =
     (if length responses \<noteq> length expected \<or> length responses \<noteq> length testNames
      then Inl (Panic ''mismatched lengths in ValidateMultiple'')
      else Inr (map (\<lambda>i. Validate Compile reMatch (responses ! i) (expected ! i) (testNames ! i))
                  [0 ..< length responses]))"

section \<open>Suites and reports\<close>

text \<open>
  The configuration structs of \<open>internal/core/config/types.go\<close>. A duration is a
  number of nanoseconds.
\<close>

record Request =
  Method :: string
  Path :: string
  Request_Headers :: "(string \<times> string) list"
  Request_Body :: string

record Test =
  Name :: string
  Test_Request :: Request
  Test_Expected :: Expected

record Target =
  BaseURL :: string
  Timeout :: int

record Metadata =
  Metadata_Name :: string
  Description :: string

record Spec =
  Spec_Target :: Target
  Tests :: "Test list"

record SentinelTest =
  APIVersion :: string
  Kind :: string
  SentinelTest_Metadata :: Metadata
  SentinelTest_Spec :: Spec

text \<open>
  \<open>reporter.TestReport\<close> and \<open>reporter.SuiteReport\<close>; request, response and validation
  result are pointers. Durations and timestamps are wall-clock readings and are left out.
\<close>

record TestReport =
  TestReport_TestName :: string
  TestReport_Status :: string
  TestReport_Request :: "Request option"
  TestReport_Response :: "Response option"
  TestReport_ValidationResult :: "ValidationResult option"

record SuiteReport =
  SuiteReport_SuiteName :: string
  SuiteReport_TotalTests :: int
  SuiteReport_PassedTests :: int
  SuiteReport_FailedTests :: int
  SuiteReport_Tests :: "TestReport list"

definition GenerateTestReport ::
  "string \<Rightarrow> Request \<Rightarrow> Response \<Rightarrow> ValidationResult \<Rightarrow> TestReport" where
  "GenerateTestReport testName request response validation =
     (let status = (if \<not> Passed validation then ''FAIL'' else ''PASS'')
      in \<lparr>TestReport_TestName = testName, TestReport_Status = status,
          TestReport_Request = Some request, TestReport_Response = Some response,
          TestReport_ValidationResult = Some validation\<rparr>)"

text \<open>The counting loop of \<open>GenerateSuiteReport\<close>, on the pair \<open>(passed, failed)\<close>.\<close>

fun count_loop :: "TestReport list \<Rightarrow> int \<times> int \<Rightarrow> int \<times> int" where
  "count_loop [] (passed, failed) = (passed, failed)"
| "count_loop (report # rest) (passed, failed) =
     (if TestReport_Status report = ''PASS''
      then count_loop rest (passed + 1, failed)
      else count_loop rest (passed, failed + 1))"

definition GenerateSuiteReport :: "string \<Rightarrow> TestReport list \<Rightarrow> SuiteReport" where
  "GenerateSuiteReport suiteName testReports =
     (case count_loop testReports (0, 0) of
        (passed, failed) \<Rightarrow>
          \<lparr>SuiteReport_SuiteName = suiteName,
           SuiteReport_TotalTests = int (length testReports),
           SuiteReport_PassedTests = passed,
           SuiteReport_FailedTests = failed,
           SuiteReport_Tests = testReports\<rparr>)"

section \<open>The sequential runner of the command line tool\<close>

text \<open>
  \<open>httpExecutor.ExecuteTest\<close> talks to the network. It is a parameter \<open>exec\<close> that
  takes the state of the outside world, the test and the base address, and returns the
  error message (\<open>Inl\<close>) or the response, with the world after the call.

  \<open>executeTestsSequentially\<close>: when the executor fails, the loop logs and goes on to
  the next test without adding a report. Printing the report is left out.
\<close>

fun executeTestsSequentially_loop ::
  "(string \<Rightarrow> string + 're) \<Rightarrow> ('re \<Rightarrow> string \<Rightarrow> bool) \<Rightarrow>
   ('w \<Rightarrow> Test \<Rightarrow> string \<Rightarrow> (string + Response) \<times> 'w) \<Rightarrow>
   string \<Rightarrow> Test list \<Rightarrow> TestReport list \<Rightarrow> 'w \<Rightarrow> TestReport list \<times> 'w" where
  "executeTestsSequentially_loop Compile reMatch exec baseURL [] reports w = (reports, w)"
| "executeTestsSequentially_loop Compile reMatch exec baseURL (test # rest) reports w =
     (case exec w test baseURL of
        (Inl err, w') \<Rightarrow>
          executeTestsSequentially_loop Compile reMatch exec baseURL rest reports w'
      | (Inr response, w') \<Rightarrow>
          let validation = Validate Compile reMatch response (Test_Expected test) (Name test);
              report = GenerateTestReport (Name test) (Test_Request test) response validation
          in executeTestsSequentially_loop Compile reMatch exec baseURL rest (reports @ [report]) w')"

definition executeTestsSequentially ::
  "(string \<Rightarrow> string + 're) \<Rightarrow> ('re \<Rightarrow> string \<Rightarrow> bool) \<Rightarrow>
   ('w \<Rightarrow> Test \<Rightarrow> string \<Rightarrow> (string + Response) \<times> 'w) \<Rightarrow>
   SentinelTest \<Rightarrow> 'w \<Rightarrow> TestReport list \<times> 'w" where
  "executeTestsSequentially Compile reMatch exec sentinelTest w =
     executeTestsSequentially_loop Compile reMatch exec
       (BaseURL (Spec_Target (SentinelTest_Spec sentinelTest)))
       (Tests (SentinelTest_Spec sentinelTest)) [] w"

section \<open>The runner of the client package (pkg/client/client.go)\<close>

text \<open>
  \<open>client.TestResult\<close> and \<open>client.SuiteResult\<close>, without the durations. The suite
  type of the client has the fields of \<open>SentinelTest\<close>.
\<close>

record TestResult =
  TestResult_TestName :: string
  TestResult_Passed :: bool
  TestResult_Errors :: "string list"
  TestResult_Warnings :: "string list"

record SuiteResult =
  SuiteResult_SuiteName :: string
  SuiteResult_TotalTests :: int
  SuiteResult_PassedTests :: int
  SuiteResult_FailedTests :: int
  TestResults :: "TestResult list"

fun runTests_loop ::
  "(string \<Rightarrow> string + 're) \<Rightarrow> ('re \<Rightarrow> string \<Rightarrow> bool) \<Rightarrow>
   ('w \<Rightarrow> Test \<Rightarrow> string \<Rightarrow> (string + Response) \<times> 'w) \<Rightarrow>
   string \<Rightarrow> Test list \<Rightarrow> TestResult list \<Rightarrow> 'w \<Rightarrow> TestResult list \<times> 'w" where
  "runTests_loop Compile reMatch exec baseURL [] testResults w = (testResults, w)"
| "runTests_loop Compile reMatch exec baseURL (test # rest) testResults w =
     (case exec w test baseURL of
        (Inl err, w') \<Rightarrow>
          runTests_loop Compile reMatch exec baseURL rest
            (testResults @
               [\<lparr>TestResult_TestName = Name test, TestResult_Passed = False,
                 TestResult_Errors = [err], TestResult_Warnings = []\<rparr>]) w'
      | (Inr response, w') \<Rightarrow>
          let validation = Validate Compile reMatch response (Test_Expected test) (Name test)
          in runTests_loop Compile reMatch exec baseURL rest
               (testResults @
                  [\<lparr>TestResult_TestName = Name test, TestResult_Passed = Passed validation,
                    TestResult_Errors = Errors validation,
                    TestResult_Warnings = Warnings validation\<rparr>]) w')"

fun passed_loop :: "TestResult list \<Rightarrow> int \<Rightarrow> int" where
  "passed_loop [] passed = passed"
| "passed_loop (result # rest) passed =
     (if TestResult_Passed result then passed_loop rest (passed + 1) else passed_loop rest passed)"

definition runTests ::
  "(string \<Rightarrow> string + 're) \<Rightarrow> ('re \<Rightarrow> string \<Rightarrow> bool) \<Rightarrow>
   ('w \<Rightarrow> Test \<Rightarrow> string \<Rightarrow> (string + Response) \<times> 'w) \<Rightarrow>
   SentinelTest \<Rightarrow> 'w \<Rightarrow> SuiteResult \<times> 'w" where
  "runTests Compile reMatch exec wafTest w =
     (case runTests_loop Compile reMatch exec
             (BaseURL (Spec_Target (SentinelTest_Spec wafTest)))
             (Tests (SentinelTest_Spec wafTest)) [] w of
        (testResults, w') \<Rightarrow>
          let passed = passed_loop testResults 0
          in (\<lparr>SuiteResult_SuiteName = Metadata_Name (SentinelTest_Metadata wafTest),
               SuiteResult_TotalTests = int (length testResults),
               SuiteResult_PassedTests = passed,
               SuiteResult_FailedTests = int (length testResults) - passed,
               TestResults = testResults\<rparr>, w'))"

section \<open>The checks as the specification words them\<close>

text \<open>
  The header rule for one entry of the expected header map: a missing-header error
  when the response lacks the key, else a mismatch error naming key, expected and
  actual value when the actual value does not contain the expected one, else nothing.
\<close>

definition header_entry_errors :: "Response \<Rightarrow> string \<times> string \<Rightarrow> string list" where
  "header_entry_errors response entry =
     (case Response_Headers response (fst entry) of
        None \<Rightarrow> [''Missing expected header: '' @ fst entry]
      | Some actual \<Rightarrow>
          if strings_Contains actual (snd entry) then []
          else [''Header value mismatch for '' @ fst entry @ '': expected to contain ''
                @ quoted (snd entry) @ '', got '' @ quoted actual])"

section \<open>Concrete inputs\<close>

text \<open>
  An instance of the two regexp parameters for patterns without metacharacters: a
  pattern that opens a bracket and never closes it does not compile, every other
  pattern is searched for literally.
\<close>

definition literal_Compile :: "string \<Rightarrow> string + string" where
  "literal_Compile pattern =
     (if has_prefix pattern ''['' \<and> CHR '']'' \<notin> set pattern
      then Inl ''error parsing regexp: missing closing ]''
      else Inr pattern)"

definition literal_Match :: "string \<Rightarrow> string \<Rightarrow> bool" where
  "literal_Match re s = strings_Contains s re"

text \<open>
  An executor whose world is the number of requests made so far: the first request
  fails at the transport level, every later one is answered with status 200 and the
  body \<open>ok\<close>.
\<close>

definition first_fails_exec :: "nat \<Rightarrow> Test \<Rightarrow> string \<Rightarrow> (string + Response) \<times> nat" where
  "first_fails_exec w test baseURL =
     (if w = 0 then (Inl ''failed to execute request: connection refused'', Suc w)
      else (Inr \<lparr>StatusCode = 200, Response_Headers = Map.empty, Response_Body = ''ok''\<rparr>, Suc w))"

definition get_test :: "string \<Rightarrow> string \<Rightarrow> Test" where
  "get_test name path =
     \<lparr>Name = name,
      Test_Request = \<lparr>Method = ''GET'', Path = path, Request_Headers = [], Request_Body = []\<rparr>,
      Test_Expected = \<lparr>Status = [200], Expected_Headers = [], Expected_Body = None\<rparr>\<rparr>"

definition two_test_suite :: SentinelTest where
  "two_test_suite =
     \<lparr>APIVersion = ''sentineltest/v1'', Kind = ''SentinelTest'',
      SentinelTest_Metadata = \<lparr>Metadata_Name = ''two tests'', Description = []\<rparr>,
      SentinelTest_Spec =
        \<lparr>Spec_Target = \<lparr>BaseURL = ''http://localhost:1'', Timeout = 0\<rparr>,
         Tests = [get_test ''test 1'' ''/one'', get_test ''test 2'' ''/two'']\<rparr>\<rparr>"

section \<open>The library model\<close>

text \<open>\<open>strings_Contains\<close> is substring containment, byte for byte.\<close>

lemma has_prefix_iff: "has_prefix s p \<longleftrightarrow> (\<exists>q. s = p @ q)"
  by (induction s p rule: has_prefix.induct) auto

lemma strings_Contains_iff: "strings_Contains s sub \<longleftrightarrow> (\<exists>p q. s = p @ sub @ q)"
proof (induction s)
  case Nil
  show ?case by (cases sub) auto
next
  case (Cons c cs)
  show ?case
  proof
    assume "strings_Contains (c # cs) sub"
    then consider "has_prefix (c # cs) sub" | "strings_Contains cs sub" by auto
    then show "\<exists>p q. c # cs = p @ sub @ q"
    proof cases
      case 1
      then obtain q where "c # cs = sub @ q" by (auto simp: has_prefix_iff)
      then have "c # cs = [] @ sub @ q" by simp
      then show ?thesis by blast
    next
      case 2
      then obtain p q where "cs = p @ sub @ q" using Cons.IH by blast
      then have "c # cs = (c # p) @ sub @ q" by simp
      then show ?thesis by blast
    qed
  next
    assume "\<exists>p q. c # cs = p @ sub @ q"
    then obtain p q where pq: "c # cs = p @ sub @ q" by blast
    show "strings_Contains (c # cs) sub"
    proof (cases p)
      case Nil
      with pq have "has_prefix (c # cs) sub" by (auto simp: has_prefix_iff)
      then show ?thesis by simp
    next
      case (Cons a p')
      with pq have "cs = p' @ sub @ q" by simp
      then have "strings_Contains cs sub" using Cons.IH by blast
      then show ?thesis by simp
    qed
  qed
qed

section \<open>What each check leaves alone and what it appends\<close>

lemma status_loop_iff: "status_loop code xs \<longleftrightarrow> code \<in> set xs"
  by (induction xs) auto

lemma validateStatusCode_Passed [simp]: "Passed (validateStatusCode r e res) = Passed res"
  by (simp add: validateStatusCode_def)

lemma headers_loop_Passed [simp]: "Passed (headers_loop r hs res) = Passed res"
  by (induction r hs res rule: headers_loop.induct) (auto split: option.splits)

lemma headers_loop_Warnings [simp]: "Warnings (headers_loop r hs res) = Warnings res"
  by (induction r hs res rule: headers_loop.induct) (auto split: option.splits)

lemma contains_loop_Passed [simp]: "Passed (contains_loop body cs res) = Passed res"
  by (induction body cs res rule: contains_loop.induct) auto

lemma contains_loop_Warnings [simp]: "Warnings (contains_loop body cs res) = Warnings res"
  by (induction body cs res rule: contains_loop.induct) auto

lemma not_contains_loop_Passed [simp]: "Passed (not_contains_loop body cs res) = Passed res"
  by (induction body cs res rule: not_contains_loop.induct) auto

lemma not_contains_loop_Warnings [simp]: "Warnings (not_contains_loop body cs res) = Warnings res"
  by (induction body cs res rule: not_contains_loop.induct) auto

lemma validateHeaders_Passed [simp]: "Passed (validateHeaders r e res) = Passed res"
  by (simp add: validateHeaders_def)

lemma validateHeaders_Warnings [simp]: "Warnings (validateHeaders r e res) = Warnings res"
  by (simp add: validateHeaders_def)

lemma validateBody_Passed [simp]: "Passed (validateBody C M r e res) = Passed res"
  by (simp add: validateBody_def regexp_MatchString_def split: option.splits sum.splits)

lemma validateBody_Warnings [simp]: "Warnings (validateBody C M r e res) = Warnings res"
  by (simp add: validateBody_def regexp_MatchString_def split: option.splits sum.splits)

lemma headers_loop_Errors:
  "Errors (headers_loop r hs res) = Errors res @ concat (map (header_entry_errors r) hs)"
  by (induction r hs res rule: headers_loop.induct)
     (auto simp: header_entry_errors_def split: option.splits)

lemma validateHeaders_Errors:
  "Errors (validateHeaders r e res) =
   Errors res @ concat (map (header_entry_errors r) (Expected_Headers e))"
  by (simp add: validateHeaders_def headers_loop_Errors)

lemma contains_loop_Errors:
  "Errors (contains_loop body cs res) =
   Errors res @ map (\<lambda>c. ''Body should contain '' @ quoted c @ '' but it was not found'')
                  (filter (\<lambda>c. \<not> strings_Contains body c) cs)"
  by (induction body cs res rule: contains_loop.induct) auto

lemma not_contains_loop_Errors:
  "Errors (not_contains_loop body cs res) =
   Errors res @ map (\<lambda>c. ''Body should not contain '' @ quoted c @ '' but it was found'')
                  (filter (\<lambda>c. strings_Contains body c) cs)"
  by (induction body cs res rule: not_contains_loop.induct) auto

lemma validateStatusCode_Errors:
  "Errors (validateStatusCode r e res) =
   Errors res @
   (if Status e = [] \<or> StatusCode r \<in> set (Status e) then []
    else [''Status code mismatch: expected one of '' @ fmt_v_ints (Status e)
          @ '', got '' @ fmt_d (StatusCode r)])"
  by (simp add: validateStatusCode_def status_loop_iff)

lemma validateStatusCode_Warnings:
  "Warnings (validateStatusCode r e res) =
   Warnings res @ (if Status e = [] then [''No expected status codes defined''] else [])"
  by (simp add: validateStatusCode_def)

text \<open>validateBody only appends; what it appends does not depend on the result so far.\<close>

lemma validateBody_Errors_frame:
  "Errors (validateBody C M r e res) =
   Errors res @ Errors (validateBody C M r e \<lparr>Passed = True, Errors = [], Warnings = []\<rparr>)"
  by (simp add: validateBody_def regexp_MatchString_def contains_loop_Errors not_contains_loop_Errors
           split: option.splits sum.splits)

lemma Validate_Errors:
  "Errors (Validate C M r e n) =
   Errors (validateStatusCode r e \<lparr>Passed = True, Errors = [], Warnings = []\<rparr>)
   @ concat (map (header_entry_errors r) (Expected_Headers e))
   @ Errors (validateBody C M r e \<lparr>Passed = True, Errors = [], Warnings = []\<rparr>)"
  by (simp add: Validate_def Let_def validateHeaders_Errors validateBody_Errors_frame [of C M r e "validateHeaders _ _ _"])

lemma Validate_Warnings:
  "Warnings (Validate C M r e n) = (if Status e = [] then [''No expected status codes defined''] else [])"
  by (simp add: Validate_def Let_def validateStatusCode_Warnings)

lemma validateBody_only_Errors:
  "validateBody C M r e res = res\<lparr>Errors := Errors (validateBody C M r e res)\<rparr>"
  by (rule ValidationResult.equality) simp_all

lemma validateHeaders_only_Errors:
  "validateHeaders r e res = res\<lparr>Errors := Errors (validateHeaders r e res)\<rparr>"
  by (rule ValidationResult.equality) simp_all

lemma Validate_Passed_iff:
  "Passed (Validate C M r e n) = (Errors (Validate C M r e n) = [])"
  by (simp add: Validate_def Let_def)

lemma headers_loop_cong:
  "(\<And>k. k \<in> fst ` set hs \<Longrightarrow> Response_Headers r k = Response_Headers r' k) \<Longrightarrow>
   map (header_entry_errors r) hs = map (header_entry_errors r') hs"
  by (induction hs) (auto simp: header_entry_errors_def)

section \<open>Claims about the validator\<close>

text \<open>
  C1. For every response, expectation and test label, the result of \<open>Validate\<close> has
  \<open>Passed\<close> true exactly when its error list is empty. Warnings play no part: the
  equation holds whatever the warning list is.
\<close>

theorem C1_passed_iff_no_errors:
  "Passed (Validate Compile reMatch response expected testName) =
   (Errors (Validate Compile reMatch response expected testName) = [])"
  by (simp add: Validate_def Let_def)

text \<open>
  An instance of C1 with a warning: no expected status codes, so one warning is
  recorded, the error list is empty and \<open>Passed\<close> is true.
\<close>

theorem C1_witness:
  "Passed (Validate literal_Compile literal_Match
      \<lparr>StatusCode = 500, Response_Headers = Map.empty, Response_Body = []\<rparr>
      \<lparr>Status = [], Expected_Headers = [], Expected_Body = None\<rparr> ''t'')
   \<and> Warnings (Validate literal_Compile literal_Match
      \<lparr>StatusCode = 500, Response_Headers = Map.empty, Response_Body = []\<rparr>
      \<lparr>Status = [], Expected_Headers = [], Expected_Body = None\<rparr> ''t'')
     = [''No expected status codes defined'']"
  using C1_passed_iff_no_errors [of literal_Compile literal_Match
      "\<lparr>StatusCode = 500, Response_Headers = Map.empty, Response_Body = []\<rparr>"
      "\<lparr>Status = [], Expected_Headers = [], Expected_Body = None\<rparr>" "''t''"]
  by (simp add: Validate_Errors Validate_Warnings validateStatusCode_Errors validateBody_def)

text \<open>
  C3. Body rule precedence. With a body rule \<open>b\<close>, \<open>validateBody\<close> changes nothing but
  the error list, and what it appends is decided in this order: if \<open>Exact b\<close> is set
  (not empty), only the exact comparison (one error on mismatch, nothing from the regex
  or the two lists); else if \<open>Regex b\<close> is set, only the regex (one error when the
  pattern does not compile, one when it does not match); else one error for each string
  of \<open>Contains b\<close> missing from the body followed by one for each string of
  \<open>NotContains b\<close> present in it.
\<close>

theorem C3_body_rule_precedence:
  assumes "Expected_Body expected = Some b"
  shows "validateBody Compile reMatch response expected result =
     result\<lparr>Errors := Errors result @
       (if Exact b \<noteq> [] then
          (if Response_Body response = Exact b then []
           else [''Body exact match failed: expected '' @ quoted (Exact b)
                 @ '', got '' @ quoted (Response_Body response)])
        else if Regex b \<noteq> [] then
          (case Compile (Regex b) of
             Inl err \<Rightarrow> [''Invalid regex pattern '' @ quoted (Regex b) @ '': '' @ err]
           | Inr re \<Rightarrow>
               if reMatch re (Response_Body response) then []
               else [''Body regex match failed: pattern '' @ quoted (Regex b)
                     @ '' did not match response body''])
        else
          map (\<lambda>c. ''Body should contain '' @ quoted c @ '' but it was not found'')
              (filter (\<lambda>c. \<not> strings_Contains (Response_Body response) c) (Contains b))
          @ map (\<lambda>c. ''Body should not contain '' @ quoted c @ '' but it was found'')
              (filter (\<lambda>c. strings_Contains (Response_Body response) c) (NotContains b)))\<rparr>"
    (is "?lhs = result\<lparr>Errors := ?E\<rparr>")
proof -
  have "Errors ?lhs = ?E"
    using assms
    by (simp add: validateBody_def regexp_MatchString_def contains_loop_Errors
          not_contains_loop_Errors split: sum.splits)
  then show ?thesis
    using validateBody_only_Errors [of Compile reMatch response expected result] by simp
qed

text \<open>
  An instance of C3: exact, regex and both lists are set and each of them would
  report; only the exact-match error appears.
\<close>

theorem C3_witness:
  "Expected_Body \<lparr>Status = [200], Expected_Headers = [],
       Expected_Body = Some \<lparr>Contains = [''zzz''], NotContains = [''hello''], Exact = ''bye'', Regex = ''[''\<rparr>\<rparr>
     = Some \<lparr>Contains = [''zzz''], NotContains = [''hello''], Exact = ''bye'', Regex = ''[''\<rparr>
   \<and> Errors (validateBody literal_Compile literal_Match
         \<lparr>StatusCode = 200, Response_Headers = Map.empty, Response_Body = ''hello''\<rparr>
         \<lparr>Status = [200], Expected_Headers = [],
          Expected_Body = Some \<lparr>Contains = [''zzz''], NotContains = [''hello''], Exact = ''bye'', Regex = ''[''\<rparr>\<rparr>
         \<lparr>Passed = True, Errors = [], Warnings = []\<rparr>)
     = [''Body exact match failed: expected '' @ quoted ''bye'' @ '', got '' @ quoted ''hello'']"
  using C3_body_rule_precedence [of
     "\<lparr>Status = [200], Expected_Headers = [],
       Expected_Body = Some \<lparr>Contains = [''zzz''], NotContains = [''hello''], Exact = ''bye'', Regex = ''[''\<rparr>\<rparr>"
     "\<lparr>Contains = [''zzz''], NotContains = [''hello''], Exact = ''bye'', Regex = ''[''\<rparr>"
     literal_Compile literal_Match
     "\<lparr>StatusCode = 200, Response_Headers = Map.empty, Response_Body = ''hello''\<rparr>"
     "\<lparr>Passed = True, Errors = [], Warnings = []\<rparr>"]
  by simp

text \<open>
  C4. Status check. With an empty expected status list \<open>validateStatusCode\<close> appends
  exactly one warning and no error, whatever the status code. With a non-empty list it
  appends no warning, it appends no error exactly when the status code is in the list,
  and otherwise it appends exactly one error, which names the whole expected list and
  the actual code.
\<close>

theorem C4_status_check:
  "(Status expected = [] \<longrightarrow>
      Warnings (validateStatusCode response expected result)
        = Warnings result @ [''No expected status codes defined'']
      \<and> Errors (validateStatusCode response expected result) = Errors result)
   \<and> (Status expected \<noteq> [] \<longrightarrow>
      Warnings (validateStatusCode response expected result) = Warnings result
      \<and> ((Errors (validateStatusCode response expected result) = Errors result)
           = (StatusCode response \<in> set (Status expected)))
      \<and> (StatusCode response \<notin> set (Status expected) \<longrightarrow>
           Errors (validateStatusCode response expected result)
             = Errors result @
               [''Status code mismatch: expected one of '' @ fmt_v_ints (Status expected)
                @ '', got '' @ fmt_d (StatusCode response)]))"
  by (simp add: validateStatusCode_Errors validateStatusCode_Warnings)

text \<open>
  Instances of C4: no expected codes (one warning, no error), and status 404 against
  the expected codes 200 and 201 (the error names \<open>[200 201]\<close> and \<open>404\<close>).
\<close>

theorem C4_witness:
  "Status \<lparr>Status = [], Expected_Headers = [], Expected_Body = None\<rparr> = []
   \<and> Warnings (validateStatusCode
         \<lparr>StatusCode = 503, Response_Headers = Map.empty, Response_Body = []\<rparr>
         \<lparr>Status = [], Expected_Headers = [], Expected_Body = None\<rparr>
         \<lparr>Passed = True, Errors = [], Warnings = []\<rparr>) = [''No expected status codes defined'']
   \<and> Errors (validateStatusCode
         \<lparr>StatusCode = 503, Response_Headers = Map.empty, Response_Body = []\<rparr>
         \<lparr>Status = [], Expected_Headers = [], Expected_Body = None\<rparr>
         \<lparr>Passed = True, Errors = [], Warnings = []\<rparr>) = []
   \<and> Status \<lparr>Status = [200, 201], Expected_Headers = [], Expected_Body = None\<rparr> \<noteq> []
   \<and> (404::int) \<notin> set [200, 201]
   \<and> Errors (validateStatusCode
         \<lparr>StatusCode = 404, Response_Headers = Map.empty, Response_Body = []\<rparr>
         \<lparr>Status = [200, 201], Expected_Headers = [], Expected_Body = None\<rparr>
         \<lparr>Passed = True, Errors = [], Warnings = []\<rparr>)
       = [''Status code mismatch: expected one of [200 201], got 404'']"
proof -
  have d: "fmt_d 404 = ''404''" by code_simp
  have v: "fmt_v_ints [200, 201] = ''[200 201]''" by code_simp
  show ?thesis
    using C4_status_check [of "\<lparr>Status = [], Expected_Headers = [], Expected_Body = None\<rparr>"
            "\<lparr>StatusCode = 503, Response_Headers = Map.empty, Response_Body = []\<rparr>"
            "\<lparr>Passed = True, Errors = [], Warnings = []\<rparr>"]
          C4_status_check [of "\<lparr>Status = [200, 201], Expected_Headers = [], Expected_Body = None\<rparr>"
            "\<lparr>StatusCode = 404, Response_Headers = Map.empty, Response_Body = []\<rparr>"
            "\<lparr>Passed = True, Errors = [], Warnings = []\<rparr>"]
    by (simp add: d v)
qed

text \<open>
  C5. Header check. \<open>validateHeaders\<close> changes nothing but the error list, to which
  it appends, entry by entry in the order of the loop, the errors of
  \<open>header_entry_errors\<close>: for an entry \<open>(key, value)\<close> a missing-header error when the
  response has no header \<open>key\<close>, otherwise a mismatch error naming key, expected and
  actual value when the actual value does not contain \<open>value\<close> as a run of bytes
  (so letter case counts), otherwise nothing. With an empty expected header map the
  result is returned untouched. Two responses that agree on the expected keys get the
  same result: headers the expectation does not mention contribute nothing.
\<close>

theorem C5_header_check:
  "validateHeaders response expected result =
     result\<lparr>Errors := Errors result
        @ concat (map (header_entry_errors response) (Expected_Headers expected))\<rparr>
   \<and> (Expected_Headers expected = [] \<longrightarrow> validateHeaders response expected result = result)
   \<and> (\<forall>entry \<in> set (Expected_Headers expected).
         header_entry_errors response entry =
           (case Response_Headers response (fst entry) of
              None \<Rightarrow> [''Missing expected header: '' @ fst entry]
            | Some actual \<Rightarrow>
                if (\<exists>p q. actual = p @ snd entry @ q) then []
                else [''Header value mismatch for '' @ fst entry @ '': expected to contain ''
                      @ quoted (snd entry) @ '', got '' @ quoted actual]))
   \<and> ((\<forall>k \<in> fst ` set (Expected_Headers expected).
          Response_Headers response k = Response_Headers response' k) \<longrightarrow>
        validateHeaders response expected result = validateHeaders response' expected result)"
proof -
  have a: "validateHeaders r expected result =
     result\<lparr>Errors := Errors result
        @ concat (map (header_entry_errors r) (Expected_Headers expected))\<rparr>" for r
    using validateHeaders_only_Errors [of r expected result]
    by (simp add: validateHeaders_Errors)
  have b: "Expected_Headers expected = [] \<longrightarrow> validateHeaders response expected result = result"
    by (simp add: validateHeaders_def)
  have c: "\<forall>entry \<in> set (Expected_Headers expected).
         header_entry_errors response entry =
           (case Response_Headers response (fst entry) of
              None \<Rightarrow> [''Missing expected header: '' @ fst entry]
            | Some actual \<Rightarrow>
                if (\<exists>p q. actual = p @ snd entry @ q) then []
                else [''Header value mismatch for '' @ fst entry @ '': expected to contain ''
                      @ quoted (snd entry) @ '', got '' @ quoted actual])"
    by (simp add: header_entry_errors_def strings_Contains_iff split: option.splits)
  have d: "(\<forall>k \<in> fst ` set (Expected_Headers expected).
          Response_Headers response k = Response_Headers response' k) \<longrightarrow>
        validateHeaders response expected result = validateHeaders response' expected result"
  proof
    assume "\<forall>k \<in> fst ` set (Expected_Headers expected).
          Response_Headers response k = Response_Headers response' k"
    then have "map (header_entry_errors response) (Expected_Headers expected)
             = map (header_entry_errors response') (Expected_Headers expected)"
      by (intro headers_loop_cong) blast
    then show "validateHeaders response expected result = validateHeaders response' expected result"
      using a [of response] a [of response'] by (simp only:)
  qed
  from a [of response] b c d show ?thesis by blast
qed

text \<open>
  Instances of C5: a response with \<open>Content-Type: text/html\<close> against the expected
  entries \<open>Content-Type: application/json\<close> and \<open>X-Missing: value\<close> (one mismatch, one
  missing header); an empty expected map; the same response with one more header.
\<close>

theorem C5_witness:
  "Errors (validateHeaders
       \<lparr>StatusCode = 200, Response_Headers = [''Content-Type'' \<mapsto> ''text/html''], Response_Body = []\<rparr>
       \<lparr>Status = [200],
        Expected_Headers = [(''Content-Type'', ''application/json''), (''X-Missing'', ''value'')],
        Expected_Body = None\<rparr>
       \<lparr>Passed = True, Errors = [], Warnings = []\<rparr>)
     = [''Header value mismatch for Content-Type: expected to contain ''
          @ quoted ''application/json'' @ '', got '' @ quoted ''text/html'',
        ''Missing expected header: X-Missing'']
   \<and> validateHeaders
       \<lparr>StatusCode = 200, Response_Headers = [''Content-Type'' \<mapsto> ''text/html''], Response_Body = []\<rparr>
       \<lparr>Status = [200], Expected_Headers = [], Expected_Body = None\<rparr>
       \<lparr>Passed = True, Errors = [], Warnings = []\<rparr>
     = \<lparr>Passed = True, Errors = [], Warnings = []\<rparr>
   \<and> validateHeaders
       \<lparr>StatusCode = 200, Response_Headers = [''Content-Type'' \<mapsto> ''text/html''], Response_Body = []\<rparr>
       \<lparr>Status = [200],
        Expected_Headers = [(''Content-Type'', ''application/json''), (''X-Missing'', ''value'')],
        Expected_Body = None\<rparr>
       \<lparr>Passed = True, Errors = [], Warnings = []\<rparr>
     = validateHeaders
       \<lparr>StatusCode = 200,
        Response_Headers = [''Content-Type'' \<mapsto> ''text/html'', ''Server'' \<mapsto> ''nginx''],
        Response_Body = []\<rparr>
       \<lparr>Status = [200],
        Expected_Headers = [(''Content-Type'', ''application/json''), (''X-Missing'', ''value'')],
        Expected_Body = None\<rparr>
       \<lparr>Passed = True, Errors = [], Warnings = []\<rparr>"
proof -
  let ?r = "\<lparr>StatusCode = 200, Response_Headers = [''Content-Type'' \<mapsto> ''text/html''], Response_Body = []\<rparr>"
  let ?r' = "\<lparr>StatusCode = 200,
          Response_Headers = [''Content-Type'' \<mapsto> ''text/html'', ''Server'' \<mapsto> ''nginx''],
          Response_Body = []\<rparr>"
  let ?e = "\<lparr>Status = [200],
          Expected_Headers = [(''Content-Type'', ''application/json''), (''X-Missing'', ''value'')],
          Expected_Body = None\<rparr>"
  let ?empty = "\<lparr>Status = [200], Expected_Headers = [], Expected_Body = None\<rparr>"
  let ?i = "\<lparr>Passed = True, Errors = [], Warnings = []\<rparr>"
  have c: "\<not> strings_Contains ''text/html'' ''application/json''" by code_simp
  have same: "\<forall>k \<in> fst ` set (Expected_Headers ?e). Response_Headers ?r k = Response_Headers ?r' k"
    by simp
  note t = C5_header_check [of ?r ?e ?i ?r']
  note tempty = C5_header_check [of ?r ?empty ?i ?r']
  from t have 1: "Errors (validateHeaders ?r ?e ?i)
     = [''Header value mismatch for Content-Type: expected to contain ''
          @ quoted ''application/json'' @ '', got '' @ quoted ''text/html'',
        ''Missing expected header: X-Missing'']"
    by (simp add: header_entry_errors_def c)
  have em: "Expected_Headers ?empty = []" by simp
  from tempty em have 2: "validateHeaders ?r ?empty ?i = ?i" by blast
  from t same have 3: "validateHeaders ?r ?e ?i = validateHeaders ?r' ?e ?i" by blast
  from 1 2 3 show ?thesis by blast
qed

text \<open>
  C6, as stated, fails: the claim speaks of every body expectation whose regex pattern
  does not compile, but a set exact-match string takes precedence and the pattern is
  never compiled. Here the pattern \<open>[invalid\<close> does not compile, the exact string equals
  the body, and validation records no error at all.
\<close>

theorem C6_counterexample:
  "literal_Compile ''[invalid'' = Inl ''error parsing regexp: missing closing ]''
   \<and> Errors (Validate literal_Compile literal_Match
        \<lparr>StatusCode = 200, Response_Headers = Map.empty, Response_Body = ''abc''\<rparr>
        \<lparr>Status = [200], Expected_Headers = [],
         Expected_Body = Some \<lparr>Contains = [], NotContains = [], Exact = ''abc'', Regex = ''[invalid''\<rparr>\<rparr>
        ''t'') = []"
  by (simp add: literal_Compile_def Validate_Errors validateStatusCode_Errors validateBody_def)

text \<open>
  C6, amended. For every response and every body expectation whose exact-match string
  is empty and whose regex pattern is set and does not compile, \<open>validateBody\<close> appends
  exactly one error, which names the pattern and the compiler's message, whatever the
  body is; the status and header checks contribute exactly the errors they contribute
  for the same expectation without a body rule; and the validation fails.
\<close>

theorem C6_invalid_regex:
  assumes "Expected_Body expected = Some b" and "Exact b = []" and "Regex b \<noteq> []"
    and "Compile (Regex b) = Inl err"
  shows "validateBody Compile reMatch response expected result =
           result\<lparr>Errors := Errors result
              @ [''Invalid regex pattern '' @ quoted (Regex b) @ '': '' @ err]\<rparr>
         \<and> Errors (Validate Compile reMatch response expected testName) =
             Errors (Validate Compile reMatch response (expected\<lparr>Expected_Body := None\<rparr>) testName)
             @ [''Invalid regex pattern '' @ quoted (Regex b) @ '': '' @ err]
         \<and> \<not> Passed (Validate Compile reMatch response expected testName)"
proof -
  have e: "Errors (validateBody Compile reMatch response expected res) =
           Errors res @ [''Invalid regex pattern '' @ quoted (Regex b) @ '': '' @ err]" for res
    using assms by (simp add: validateBody_def regexp_MatchString_def)
  have 1: "validateBody Compile reMatch response expected result =
           result\<lparr>Errors := Errors result
              @ [''Invalid regex pattern '' @ quoted (Regex b) @ '': '' @ err]\<rparr>"
    using validateBody_only_Errors [of Compile reMatch response expected result] e by simp
  have n: "Errors (validateBody Compile reMatch response (expected\<lparr>Expected_Body := None\<rparr>) res) = Errors res" for res
    by (simp add: validateBody_def)
  have 2: "Errors (Validate Compile reMatch response expected testName) =
             Errors (Validate Compile reMatch response (expected\<lparr>Expected_Body := None\<rparr>) testName)
             @ [''Invalid regex pattern '' @ quoted (Regex b) @ '': '' @ err]"
    by (simp add: Validate_Errors e n validateStatusCode_Errors)
  have 3: "\<not> Passed (Validate Compile reMatch response expected testName)"
    using 2 by (simp add: Validate_Passed_iff)
  from 1 2 3 show ?thesis by blast
qed

text \<open>
  An instance of amended C6: status 404 against the expected code 200 and the pattern
  \<open>[invalid\<close>; the status error is followed by the invalid-pattern error.
\<close>

theorem C6_witness:
  "Expected_Body \<lparr>Status = [200], Expected_Headers = [],
         Expected_Body = Some \<lparr>Contains = [], NotContains = [], Exact = [], Regex = ''[invalid''\<rparr>\<rparr>
     = Some \<lparr>Contains = [], NotContains = [], Exact = [], Regex = ''[invalid''\<rparr>
   \<and> Exact \<lparr>Contains = [], NotContains = [], Exact = [], Regex = ''[invalid''\<rparr> = []
   \<and> Regex \<lparr>Contains = [], NotContains = [], Exact = [], Regex = ''[invalid''\<rparr> \<noteq> []
   \<and> literal_Compile (Regex \<lparr>Contains = [], NotContains = [], Exact = [], Regex = ''[invalid''\<rparr>)
       = Inl ''error parsing regexp: missing closing ]''
   \<and> Errors (Validate literal_Compile literal_Match
        \<lparr>StatusCode = 404, Response_Headers = Map.empty, Response_Body = ''abc''\<rparr>
        \<lparr>Status = [200], Expected_Headers = [],
         Expected_Body = Some \<lparr>Contains = [], NotContains = [], Exact = [], Regex = ''[invalid''\<rparr>\<rparr>
        ''t'')
     = [''Status code mismatch: expected one of [200], got 404'',
        ''Invalid regex pattern '' @ quoted ''[invalid'' @ '': error parsing regexp: missing closing ]'']
   \<and> \<not> Passed (Validate literal_Compile literal_Match
        \<lparr>StatusCode = 404, Response_Headers = Map.empty, Response_Body = ''abc''\<rparr>
        \<lparr>Status = [200], Expected_Headers = [],
         Expected_Body = Some \<lparr>Contains = [], NotContains = [], Exact = [], Regex = ''[invalid''\<rparr>\<rparr>
        ''t'')"
proof -
  have d: "fmt_d 404 = ''404''" by code_simp
  have v: "fmt_v_ints [200] = ''[200]''" by code_simp
  have l: "literal_Compile ''[invalid'' = Inl ''error parsing regexp: missing closing ]''"
    by (simp add: literal_Compile_def)
  show ?thesis
    using C6_invalid_regex [of
        "\<lparr>Status = [200], Expected_Headers = [],
          Expected_Body = Some \<lparr>Contains = [], NotContains = [], Exact = [], Regex = ''[invalid''\<rparr>\<rparr>"
        "\<lparr>Contains = [], NotContains = [], Exact = [], Regex = ''[invalid''\<rparr>"
        literal_Compile "''error parsing regexp: missing closing ]''" literal_Match
        "\<lparr>StatusCode = 404, Response_Headers = Map.empty, Response_Body = ''abc''\<rparr>"
        "\<lparr>Passed = True, Errors = [], Warnings = []\<rparr>" "''t''"]
    by (simp add: l d v Validate_Errors validateStatusCode_Errors validateBody_def)
qed

text \<open>
  C7. When the regex pattern of a body expectation is set, the exact-match string is
  not, and the pattern compiles, \<open>validateBody\<close> returns the result unchanged if the
  compiled pattern matches the body and appends exactly one no-match error, naming the
  pattern, if it does not.
\<close>

theorem C7_regex_match:
  assumes "Expected_Body expected = Some b" and "Exact b = []" and "Regex b \<noteq> []"
    and "Compile (Regex b) = Inr re"
  shows "validateBody Compile reMatch response expected result =
           (if reMatch re (Response_Body response) then result
            else result\<lparr>Errors := Errors result
                   @ [''Body regex match failed: pattern '' @ quoted (Regex b)
                      @ '' did not match response body'']\<rparr>)"
  using assms by (simp add: validateBody_def regexp_MatchString_def)

text \<open>
  Instances of C7 with the literal pattern \<open>id=\<close>: a body that holds it and a body
  that does not.
\<close>

theorem C7_witness:
  "Expected_Body \<lparr>Status = [200], Expected_Headers = [],
         Expected_Body = Some \<lparr>Contains = [], NotContains = [], Exact = [], Regex = ''id=''\<rparr>\<rparr>
     = Some \<lparr>Contains = [], NotContains = [], Exact = [], Regex = ''id=''\<rparr>
   \<and> Exact \<lparr>Contains = [], NotContains = [], Exact = [], Regex = ''id=''\<rparr> = []
   \<and> Regex \<lparr>Contains = [], NotContains = [], Exact = [], Regex = ''id=''\<rparr> \<noteq> []
   \<and> literal_Compile (Regex \<lparr>Contains = [], NotContains = [], Exact = [], Regex = ''id=''\<rparr>) = Inr ''id=''
   \<and> validateBody literal_Compile literal_Match
        \<lparr>StatusCode = 200, Response_Headers = Map.empty, Response_Body = ''name=a&id=123''\<rparr>
        \<lparr>Status = [200], Expected_Headers = [],
         Expected_Body = Some \<lparr>Contains = [], NotContains = [], Exact = [], Regex = ''id=''\<rparr>\<rparr>
        \<lparr>Passed = True, Errors = [], Warnings = []\<rparr>
     = \<lparr>Passed = True, Errors = [], Warnings = []\<rparr>
   \<and> validateBody literal_Compile literal_Match
        \<lparr>StatusCode = 200, Response_Headers = Map.empty, Response_Body = ''name=a''\<rparr>
        \<lparr>Status = [200], Expected_Headers = [],
         Expected_Body = Some \<lparr>Contains = [], NotContains = [], Exact = [], Regex = ''id=''\<rparr>\<rparr>
        \<lparr>Passed = True, Errors = [], Warnings = []\<rparr>
     = \<lparr>Passed = True,
        Errors = [''Body regex match failed: pattern '' @ quoted ''id=''
                  @ '' did not match response body''],
        Warnings = []\<rparr>"
proof -
  have l: "literal_Compile ''id='' = Inr ''id=''"
    by (simp add: literal_Compile_def)
  have m1: "literal_Match ''id='' ''name=a&id=123''" unfolding literal_Match_def by code_simp
  have m2: "\<not> literal_Match ''id='' ''name=a''" unfolding literal_Match_def by code_simp
  show ?thesis
    using C7_regex_match [of
        "\<lparr>Status = [200], Expected_Headers = [],
          Expected_Body = Some \<lparr>Contains = [], NotContains = [], Exact = [], Regex = ''id=''\<rparr>\<rparr>"
        "\<lparr>Contains = [], NotContains = [], Exact = [], Regex = ''id=''\<rparr>"
        literal_Compile "''id=''" literal_Match
        "\<lparr>StatusCode = 200, Response_Headers = Map.empty, Response_Body = ''name=a&id=123''\<rparr>"
        "\<lparr>Passed = True, Errors = [], Warnings = []\<rparr>"]
      C7_regex_match [of
        "\<lparr>Status = [200], Expected_Headers = [],
          Expected_Body = Some \<lparr>Contains = [], NotContains = [], Exact = [], Regex = ''id=''\<rparr>\<rparr>"
        "\<lparr>Contains = [], NotContains = [], Exact = [], Regex = ''id=''\<rparr>"
        literal_Compile "''id=''" literal_Match
        "\<lparr>StatusCode = 200, Response_Headers = Map.empty, Response_Body = ''name=a''\<rparr>"
        "\<lparr>Passed = True, Errors = [], Warnings = []\<rparr>"]
    by (simp add: l m1 m2)
qed

text \<open>
  C8. \<open>ValidateMultiple\<close> panics whenever the three lists do not have the same
  length. When they have, it returns a list of that length whose \<open>i\<close>-th element is
  \<open>Validate\<close> of the \<open>i\<close>-th response, expectation and label.
\<close>

theorem C8_validate_multiple:
  "(length responses \<noteq> length expected \<or> length responses \<noteq> length testNames \<longrightarrow>
      ValidateMultiple Compile reMatch responses expected testNames
        = Inl (Panic ''mismatched lengths in ValidateMultiple''))
   \<and> (length responses = length expected \<and> length responses = length testNames \<longrightarrow>
      (\<exists>results. ValidateMultiple Compile reMatch responses expected testNames = Inr results
         \<and> length results = length responses
         \<and> (\<forall>i < length responses.
               results ! i = Validate Compile reMatch (responses ! i) (expected ! i) (testNames ! i))))"
  by (simp add: ValidateMultiple_def)

text \<open>
  Instances of C8: one response, two expectations and one label (the panic); one of
  each.
\<close>

theorem C8_witness:
  "length [\<lparr>StatusCode = 200, Response_Headers = Map.empty, Response_Body = []\<rparr>]
     \<noteq> length [\<lparr>Status = [200], Expected_Headers = [], Expected_Body = None\<rparr>,
               \<lparr>Status = [201], Expected_Headers = [], Expected_Body = None\<rparr>]
   \<and> ValidateMultiple literal_Compile literal_Match
        [\<lparr>StatusCode = 200, Response_Headers = Map.empty, Response_Body = []\<rparr>]
        [\<lparr>Status = [200], Expected_Headers = [], Expected_Body = None\<rparr>,
         \<lparr>Status = [201], Expected_Headers = [], Expected_Body = None\<rparr>]
        [''test1'']
      = Inl (Panic ''mismatched lengths in ValidateMultiple'')
   \<and> ValidateMultiple literal_Compile literal_Match
        [\<lparr>StatusCode = 200, Response_Headers = Map.empty, Response_Body = []\<rparr>]
        [\<lparr>Status = [200], Expected_Headers = [], Expected_Body = None\<rparr>]
        [''test1'']
      = Inr [Validate literal_Compile literal_Match
              \<lparr>StatusCode = 200, Response_Headers = Map.empty, Response_Body = []\<rparr>
              \<lparr>Status = [200], Expected_Headers = [], Expected_Body = None\<rparr> ''test1'']"
  using C8_validate_multiple [of
        "[\<lparr>StatusCode = 200, Response_Headers = Map.empty, Response_Body = []\<rparr>]"
        "[\<lparr>Status = [200], Expected_Headers = [], Expected_Body = None\<rparr>,
          \<lparr>Status = [201], Expected_Headers = [], Expected_Body = None\<rparr>]"
        "[''test1'']" literal_Compile literal_Match]
      C8_validate_multiple [of
        "[\<lparr>StatusCode = 200, Response_Headers = Map.empty, Response_Body = []\<rparr>]"
        "[\<lparr>Status = [200], Expected_Headers = [], Expected_Body = None\<rparr>]"
        "[''test1'']" literal_Compile literal_Match]
  by (auto simp: length_Suc_conv)



section \<open>The runners on a transport failure\<close>

lemma count_loop_fst_snd:
  "fst (count_loop rs (p, f)) + snd (count_loop rs (p, f)) = p + f + int (length rs)"
  by (induction rs "(p, f)" arbitrary: p f rule: count_loop.induct) auto

lemma runTests_loop_length:
  "length (fst (runTests_loop C M exec base tests acc w)) = length acc + length tests"
  by (induction C M exec base tests acc w rule: runTests_loop.induct)
     (auto simp: Let_def split: prod.splits sum.splits)

lemma runTests_TotalTests:
  "SuiteResult_TotalTests (fst (runTests C M exec suite w))
     = int (length (Tests (SentinelTest_Spec suite)))"
  using runTests_loop_length [of C M exec "BaseURL (Spec_Target (SentinelTest_Spec suite))"
          "Tests (SentinelTest_Spec suite)" "[]" w]
  by (auto simp: runTests_def Let_def split: prod.splits)

lemma executeTestsSequentially_loop_length:
  "length (fst (executeTestsSequentially_loop C M exec base tests acc w))
     \<le> length acc + length tests"
  by (induction C M exec base tests acc w rule: executeTestsSequentially_loop.induct)
     (auto simp: Let_def split: prod.splits sum.splits)

text \<open>
  The runner of the client package records a failed result for a test whose request
  fails and goes on: with two tests, the first failing at the transport level and the
  second passing, the summary is 2 tests, 1 passed, 1 failed, and the first result
  carries the transport error as its only error.
\<close>

lemma runTests_two_tests:
  assumes "Tests (SentinelTest_Spec suite) = [t1, t2]"
    and "exec w t1 (BaseURL (Spec_Target (SentinelTest_Spec suite))) = (Inl err, w1)"
    and "exec w1 t2 (BaseURL (Spec_Target (SentinelTest_Spec suite))) = (Inr response, w2)"
    and "Passed (Validate C M response (Test_Expected t2) (Name t2))"
  shows "SuiteResult_TotalTests (fst (runTests C M exec suite w)) = 2"
    and "SuiteResult_PassedTests (fst (runTests C M exec suite w)) = 1"
    and "SuiteResult_FailedTests (fst (runTests C M exec suite w)) = 1"
    and "TestResults (fst (runTests C M exec suite w)) ! 0 =
           \<lparr>TestResult_TestName = Name t1, TestResult_Passed = False,
            TestResult_Errors = [err], TestResult_Warnings = []\<rparr>"
  using assms by (simp_all add: runTests_def Let_def)

lemma runTests_on_two_test_suite:
  "SuiteResult_TotalTests (fst (runTests literal_Compile literal_Match first_fails_exec two_test_suite 0)) = 2
   \<and> SuiteResult_PassedTests (fst (runTests literal_Compile literal_Match first_fails_exec two_test_suite 0)) = 1
   \<and> SuiteResult_FailedTests (fst (runTests literal_Compile literal_Match first_fails_exec two_test_suite 0)) = 1
   \<and> TestResults (fst (runTests literal_Compile literal_Match first_fails_exec two_test_suite 0)) ! 0
      = \<lparr>TestResult_TestName = ''test 1'', TestResult_Passed = False,
         TestResult_Errors = [''failed to execute request: connection refused''],
         TestResult_Warnings = []\<rparr>"
proof -
  have p: "Passed (Validate literal_Compile literal_Match
             \<lparr>StatusCode = 200, Response_Headers = Map.empty, Response_Body = ''ok''\<rparr>
             (Test_Expected (get_test ''test 2'' ''/two'')) (Name (get_test ''test 2'' ''/two'')))"
    by (simp add: Validate_Passed_iff Validate_Errors validateStatusCode_Errors validateBody_def get_test_def)
  show ?thesis
    using runTests_two_tests [of two_test_suite
            "get_test ''test 1'' ''/one''" "get_test ''test 2'' ''/two''" first_fails_exec 0
            "''failed to execute request: connection refused''" "Suc 0"
            "\<lparr>StatusCode = 200, Response_Headers = Map.empty, Response_Body = ''ok''\<rparr>" "Suc (Suc 0)"
            literal_Compile literal_Match, OF _ _ _ p]
    by (simp add: two_test_suite_def first_fails_exec_def get_test_def)
qed

text \<open>
  \<open>executeTestsSequentially\<close> goes on to the next test as well, but adds no report
  for the failed one: on the same two tests the suite report built from its reports
  counts 1 test, 1 passed, 0 failed.
\<close>

lemma executeTestsSequentially_two_tests:
  assumes "Tests (SentinelTest_Spec suite) = [t1, t2]"
    and "exec w t1 (BaseURL (Spec_Target (SentinelTest_Spec suite))) = (Inl err, w1)"
    and "exec w1 t2 (BaseURL (Spec_Target (SentinelTest_Spec suite))) = (Inr response, w2)"
    and "Passed (Validate C M response (Test_Expected t2) (Name t2))"
  shows "map TestReport_TestName (fst (executeTestsSequentially C M exec suite w)) = [Name t2]"
    and "SuiteReport_TotalTests
           (GenerateSuiteReport name (fst (executeTestsSequentially C M exec suite w))) = 1"
    and "SuiteReport_PassedTests
           (GenerateSuiteReport name (fst (executeTestsSequentially C M exec suite w))) = 1"
    and "SuiteReport_FailedTests
           (GenerateSuiteReport name (fst (executeTestsSequentially C M exec suite w))) = 0"
  using assms
  by (simp_all add: executeTestsSequentially_def Let_def GenerateSuiteReport_def GenerateTestReport_def)

text \<open>
  C2. The claim: in a sequential run a transport failure is recorded as a failed
  outcome and the run goes on, so a suite of two tests, the first unreachable and the
  second passing, is reported as 2 tests, 1 passed, 1 failed. On that suite the
  sequential runner of the command line tool reports only the second test: 1 test,
  1 passed, 0 failed.
\<close>

theorem C2_sequential_runner_drops_failed_test:
  "map TestReport_TestName
       (fst (executeTestsSequentially literal_Compile literal_Match first_fails_exec two_test_suite 0))
     = [''test 2'']
   \<and> SuiteReport_TotalTests (GenerateSuiteReport ''All Tests''
       (fst (executeTestsSequentially literal_Compile literal_Match first_fails_exec two_test_suite 0))) = 1
   \<and> SuiteReport_PassedTests (GenerateSuiteReport ''All Tests''
       (fst (executeTestsSequentially literal_Compile literal_Match first_fails_exec two_test_suite 0))) = 1
   \<and> SuiteReport_FailedTests (GenerateSuiteReport ''All Tests''
       (fst (executeTestsSequentially literal_Compile literal_Match first_fails_exec two_test_suite 0))) = 0"
proof -
  have p: "Passed (Validate literal_Compile literal_Match
             \<lparr>StatusCode = 200, Response_Headers = Map.empty, Response_Body = ''ok''\<rparr>
             (Test_Expected (get_test ''test 2'' ''/two'')) (Name (get_test ''test 2'' ''/two'')))"
    by (simp add: Validate_Passed_iff Validate_Errors validateStatusCode_Errors validateBody_def get_test_def)
  show ?thesis
    using executeTestsSequentially_two_tests [of two_test_suite
            "get_test ''test 1'' ''/one''" "get_test ''test 2'' ''/two''" first_fails_exec 0
            "''failed to execute request: connection refused''" "Suc 0"
            "\<lparr>StatusCode = 200, Response_Headers = Map.empty, Response_Body = ''ok''\<rparr>" "Suc (Suc 0)"
            literal_Compile literal_Match, OF _ _ _ p]
    by (simp add: two_test_suite_def first_fails_exec_def get_test_def)
qed

end
